theory Spec2Isabelle
  imports Complex_Main "HOL-Library.Sublist"
begin

section \<open>Data model\<close>

text \<open>
  The records of \<^verbatim>\<open>Dashboard\<close> and \<^verbatim>\<open>BudgetPurchases\<close>. A TypeScript
  \<^verbatim>\<open>number\<close> holding a money or percentage value is an exact real here (the
  database columns are \<^verbatim>\<open>decimal(10,2)\<close> and \<^verbatim>\<open>decimal(5,2)\<close>); binary
  rounding of the products and sums is not modelled. \<^verbatim>\<open>number | null\<close> is an option.
\<close>

record UserProfile =
  monthly_income :: real
  tracking_start_day :: int
  display_name :: "string option"

record Budget =
  budget_ident :: string
  budget_name :: string
  fixed_amount :: "real option"
  percentage_amount :: "real option"
  color :: string

datatype PaymentMethod = Bank | Credit | Cash

record Purchase =
  purchase_ident :: string
  budget_id :: string
  amount :: real
  description :: string
  payment_method :: PaymentMethod
  purchase_date :: int

section \<open>Budget resolver\<close>

text \<open>
  JavaScript's conversions of a \<^verbatim>\<open>number | null\<close>: \<^verbatim>\<open>null\<close> and \<^verbatim>\<open>0\<close> are
  falsy, and \<^verbatim>\<open>null\<close> converts to the number \<^verbatim>\<open>0\<close>.
\<close>

fun truthy :: "real option \<Rightarrow> bool" where
  "truthy None = False"
| "truthy (Some v) = (v \<noteq> 0)"

fun toNumber :: "real option \<Rightarrow> real" where
  "toNumber None = 0"
| "toNumber (Some v) = v"

text \<open>\<^verbatim>\<open>calculateBudgetAmount\<close> of the dashboard; the profile is \<^verbatim>\<open>null\<close> until loaded.\<close>

definition calculateBudgetAmount :: "UserProfile option \<Rightarrow> Budget \<Rightarrow> real" where
  "calculateBudgetAmount userProfile budget =
     (case userProfile of
        None \<Rightarrow> 0
      | Some up \<Rightarrow>
          if truthy (fixed_amount budget) \<and> truthy (percentage_amount budget) then
            (let percentageAmount =
                   (monthly_income up * toNumber (percentage_amount budget)) / 100
             in min (toNumber (fixed_amount budget)) percentageAmount)
          else if truthy (fixed_amount budget) then toNumber (fixed_amount budget)
          else if truthy (percentage_amount budget) then
            (monthly_income up * toNumber (percentage_amount budget)) / 100
          else 0)"

section \<open>Aggregator\<close>

record Totals =
  bank :: real
  credit :: real
  cash :: real

text \<open>One step of the \<^verbatim>\<open>forEach\<close>: \<^verbatim>\<open>totals[purchase.payment_method] += purchase.amount\<close>.\<close>

definition add_to_totals :: "Totals \<Rightarrow> Purchase \<Rightarrow> Totals" where
  "add_to_totals totals purchase =
     (case payment_method purchase of
        Bank \<Rightarrow> totals\<lparr>bank := bank totals + amount purchase\<rparr>
      | Credit \<Rightarrow> totals\<lparr>credit := credit totals + amount purchase\<rparr>
      | Cash \<Rightarrow> totals\<lparr>cash := cash totals + amount purchase\<rparr>)"

definition calculateTotalsByPaymentMethod :: "Purchase list \<Rightarrow> Totals" where
  "calculateTotalsByPaymentMethod purchases =
     foldl add_to_totals \<lparr>bank = 0, credit = 0, cash = 0\<rparr> purchases"

definition totalSpent :: "Purchase list \<Rightarrow> real" where
  "totalSpent purchases = foldl (\<lambda>sum purchase. sum + amount purchase) 0 purchases"

definition calculateBudgetSpent :: "Purchase list \<Rightarrow> string \<Rightarrow> real" where
  "calculateBudgetSpent purchases budgetId =
     foldl (\<lambda>sum p. sum + amount p) 0 (filter (\<lambda>p. budget_id p = budgetId) purchases)"

section \<open>Date arithmetic of the JavaScript runtime\<close>

text \<open>
  The \<^verbatim>\<open>Date\<close> operations the components call, after ECMA-262 (Day Number and Time
  within Day, Year Number, Month Number, Date Number, MakeTime, MakeDay, MakeDate). A
  \<^verbatim>\<open>Date\<close> is held as its local time value, an integer number of milliseconds: the
  zone offset is taken as fixed, so it cancels in every comparison between two dates, and
  the range limit of time values is not modelled. Division and remainder on \<open>int\<close>
  round towards minus infinity, as \<^verbatim>\<open>floor\<close> and the standard's modulo do.
\<close>

definition msPerDay :: int where "msPerDay = 86400000"
definition msPerHour :: int where "msPerHour = 3600000"
definition msPerMinute :: int where "msPerMinute = 60000"
definition msPerSecond :: int where "msPerSecond = 1000"

definition Day :: "int \<Rightarrow> int" where "Day t = t div msPerDay"

definition TimeWithinDay :: "int \<Rightarrow> int" where "TimeWithinDay t = t mod msPerDay"

definition DaysInYear :: "int \<Rightarrow> int" where
  "DaysInYear y =
     (if y mod 4 \<noteq> 0 then 365
      else if y mod 100 \<noteq> 0 then 366
      else if y mod 400 \<noteq> 0 then 365
      else 366)"

definition DayFromYear :: "int \<Rightarrow> int" where
  "DayFromYear y =
     365 * (y - 1970) + (y - 1969) div 4 - (y - 1901) div 100 + (y - 1601) div 400"

text \<open>
  The standard defines the year of a time value as the largest \<open>y\<close> whose first day is not
  after it. Here it is computed: an estimate from the mean length of a year, corrected by
  at most one (\<open>YearFromDay_bounds\<close> and \<open>YearFromDay_unique\<close> below show that this is the
  year the standard means).
\<close>

definition YearFromDay :: "int \<Rightarrow> int" where
  "YearFromDay d =
     (let y = 1970 + (400 * d) div 146097 in
      if d < DayFromYear y then y - 1
      else if DayFromYear (y + 1) \<le> d then y + 1
      else y)"

definition YearFromTime :: "int \<Rightarrow> int" where
  "YearFromTime t = YearFromDay (Day t)"

definition LeapOfYear :: "int \<Rightarrow> int" where
  "LeapOfYear y = (if DaysInYear y = 366 then 1 else 0)"

definition InLeapYear :: "int \<Rightarrow> int" where
  "InLeapYear t = LeapOfYear (YearFromTime t)"

definition DayWithinYear :: "int \<Rightarrow> int" where
  "DayWithinYear t = Day t - DayFromYear (YearFromTime t)"

definition MonthFromDayWithinYear :: "int \<Rightarrow> int \<Rightarrow> int" where
  "MonthFromDayWithinYear d leap =
     (if d < 31 then 0
      else if d < 59 + leap then 1
      else if d < 90 + leap then 2
      else if d < 120 + leap then 3
      else if d < 151 + leap then 4
      else if d < 181 + leap then 5
      else if d < 212 + leap then 6
      else if d < 243 + leap then 7
      else if d < 273 + leap then 8
      else if d < 304 + leap then 9
      else if d < 334 + leap then 10
      else 11)"

definition DateFromDayWithinYear :: "int \<Rightarrow> int \<Rightarrow> int" where
  "DateFromDayWithinYear d leap =
     (let m = MonthFromDayWithinYear d leap in
      if m = 0 then d + 1
      else if m = 1 then d - 30
      else if m = 2 then d - 58 - leap
      else if m = 3 then d - 89 - leap
      else if m = 4 then d - 119 - leap
      else if m = 5 then d - 150 - leap
      else if m = 6 then d - 180 - leap
      else if m = 7 then d - 211 - leap
      else if m = 8 then d - 242 - leap
      else if m = 9 then d - 272 - leap
      else if m = 10 then d - 303 - leap
      else d - 333 - leap)"

definition MonthFromTime :: "int \<Rightarrow> int" where
  "MonthFromTime t = MonthFromDayWithinYear (DayWithinYear t) (InLeapYear t)"

definition DateFromTime :: "int \<Rightarrow> int" where
  "DateFromTime t = DateFromDayWithinYear (DayWithinYear t) (InLeapYear t)"

definition HourFromTime :: "int \<Rightarrow> int" where
  "HourFromTime t = (t div msPerHour) mod 24"

definition MinFromTime :: "int \<Rightarrow> int" where
  "MinFromTime t = (t div msPerMinute) mod 60"

definition SecFromTime :: "int \<Rightarrow> int" where
  "SecFromTime t = (t div msPerSecond) mod 60"

definition msFromTime :: "int \<Rightarrow> int" where
  "msFromTime t = t mod msPerSecond"

definition MakeTime :: "int \<Rightarrow> int \<Rightarrow> int \<Rightarrow> int \<Rightarrow> int" where
  "MakeTime hour minute sec ms =
     hour * msPerHour + minute * msPerMinute + sec * msPerSecond + ms"

text \<open>Day within the year on which month \<open>mn\<close> (0 to 11) starts.\<close>

definition MonthStart :: "int \<Rightarrow> int \<Rightarrow> int" where
  "MonthStart mn leap =
     (if mn = 0 then 0
      else if mn = 1 then 31
      else if mn = 2 then 59 + leap
      else if mn = 3 then 90 + leap
      else if mn = 4 then 120 + leap
      else if mn = 5 then 151 + leap
      else if mn = 6 then 181 + leap
      else if mn = 7 then 212 + leap
      else if mn = 8 then 243 + leap
      else if mn = 9 then 273 + leap
      else if mn = 10 then 304 + leap
      else 334 + leap)"

definition DaysInMonth :: "int \<Rightarrow> int \<Rightarrow> int" where
  "DaysInMonth mn leap =
     (if mn = 1 then 28 + leap
      else if mn = 3 \<or> mn = 5 \<or> mn = 8 \<or> mn = 10 then 30
      else 31)"

text \<open>
  \<^verbatim>\<open>MakeDay\<close>: months outside 0 to 11 carry into the year, and the date counts on from
  the first of the month, so day 0 is the last day of the month before and a date past
  the month's end rolls into the next month.
\<close>

definition MakeDay :: "int \<Rightarrow> int \<Rightarrow> int \<Rightarrow> int" where
  "MakeDay year month date =
     (let ym = year + month div 12; mn = month mod 12
      in DayFromYear ym + MonthStart mn (LeapOfYear ym) + date - 1)"

definition MakeDate :: "int \<Rightarrow> int \<Rightarrow> int" where
  "MakeDate day time = day * msPerDay + time"

text \<open>
  \<^verbatim>\<open>new Date(year, month, date, hours, minutes, seconds, ms)\<close>; a year from 0 to 99
  denotes 1900 plus that year.
\<close>

definition newDate :: "int \<Rightarrow> int \<Rightarrow> int \<Rightarrow> int \<Rightarrow> int \<Rightarrow> int \<Rightarrow> int \<Rightarrow> int" where
  "newDate year month date hours minutes seconds ms =
     (let yr = (if 0 \<le> year \<and> year \<le> 99 then 1900 + year else year)
      in MakeDate (MakeDay yr month date) (MakeTime hours minutes seconds ms))"

definition getFullYear :: "int \<Rightarrow> int" where "getFullYear t = YearFromTime t"

definition getMonth :: "int \<Rightarrow> int" where "getMonth t = MonthFromTime t"

definition getDate :: "int \<Rightarrow> int" where "getDate t = DateFromTime t"

definition date_fields :: "int \<Rightarrow> int \<times> int \<times> int \<times> int \<times> int \<times> int \<times> int" where
  "date_fields t =
     (getFullYear t, getMonth t, getDate t,
      HourFromTime t, MinFromTime t, SecFromTime t, msFromTime t)"

section \<open>Period calculator\<close>

text \<open>
  \<^verbatim>\<open>getCurrentTrackingPeriod\<close> of the dashboard. The source reads the clock with
  \<^verbatim>\<open>new Date()\<close>; the reading is the parameter \<open>now\<close>.
\<close>

record TrackingPeriod =
  periodStart :: int
  periodEnd :: int

definition getCurrentTrackingPeriod :: "int \<Rightarrow> int \<Rightarrow> TrackingPeriod" where
  "getCurrentTrackingPeriod now trackingStartDay =
     (let currentYear = getFullYear now;
          currentMonth = getMonth now;
          currentDay = getDate now
      in if currentDay \<ge> trackingStartDay then
           \<lparr>periodStart = newDate currentYear currentMonth trackingStartDay 0 0 0 0,
            periodEnd = newDate currentYear (currentMonth + 1) (trackingStartDay - 1)
                          23 59 59 999\<rparr>
         else
           \<lparr>periodStart = newDate currentYear (currentMonth - 1) trackingStartDay 0 0 0 0,
            periodEnd = newDate currentYear currentMonth (trackingStartDay - 1)
                          23 59 59 999\<rparr>)"

subsection \<open>The algorithm in the specification's words\<close>

text \<open>
  A calendar month is a pair of a year and a month number from 0 to 11. ``Day \<open>d\<close> of a
  month'' is counted from the month's first day, so that day 0 and days past the month's
  end have a meaning (the rolling policy of the date constructor).
\<close>

fun next_month :: "int \<times> int \<Rightarrow> int \<times> int" where
  "next_month (y, m) = (if m = 11 then (y + 1, 0) else (y, m + 1))"

fun prev_month :: "int \<times> int \<Rightarrow> int \<times> int" where
  "prev_month (y, m) = (if m = 0 then (y - 1, 11) else (y, m - 1))"

definition month_of :: "int \<Rightarrow> int \<times> int" where
  "month_of t = (getFullYear t, getMonth t)"

definition first_day_of_month :: "int \<times> int \<Rightarrow> int" where
  "first_day_of_month ym =
     DayFromYear (fst ym) + MonthStart (snd ym) (LeapOfYear (fst ym))"

definition day_of_month_at :: "int \<times> int \<Rightarrow> int \<Rightarrow> int \<Rightarrow> int" where
  "day_of_month_at ym d time = (first_day_of_month ym + (d - 1)) * msPerDay + time"

definition currentPeriod_spec :: "int \<Rightarrow> int \<Rightarrow> TrackingPeriod" where
  "currentPeriod_spec now trackingStartDay =
     (let day = getDate now; cur = month_of now
      in if day \<ge> trackingStartDay then
           \<lparr>periodStart = day_of_month_at cur trackingStartDay 0,
            periodEnd = day_of_month_at (next_month cur) (trackingStartDay - 1) 86399999\<rparr>
         else
           \<lparr>periodStart = day_of_month_at (prev_month cur) trackingStartDay 0,
            periodEnd = day_of_month_at cur (trackingStartDay - 1) 86399999\<rparr>)"

section \<open>Purchase filter\<close>

text \<open>
  Strings are lists of characters. \<^verbatim>\<open>toLowerCase\<close> maps the letters A to Z to a to z
  and leaves every other character as it is; \<^verbatim>\<open>includes\<close> is the test for a
  contiguous occurrence.
\<close>

definition toLowerCase_char :: "char \<Rightarrow> char" where
  "toLowerCase_char c =
     (case map_of (zip ''ABCDEFGHIJKLMNOPQRSTUVWXYZ'' ''abcdefghijklmnopqrstuvwxyz'') c of
        Some l \<Rightarrow> l
      | None \<Rightarrow> c)"

definition toLowerCase :: "string \<Rightarrow> string" where
  "toLowerCase s = map toLowerCase_char s"

definition includes_str :: "string \<Rightarrow> string \<Rightarrow> bool" where
  "includes_str s searchString = sublist searchString s"

fun payment_method_str :: "PaymentMethod \<Rightarrow> string" where
  "payment_method_str Bank = ''bank''"
| "payment_method_str Credit = ''credit''"
| "payment_method_str Cash = ''cash''"

text \<open>
  \<^verbatim>\<open>filterPurchases\<close> of the purchases page: the state it reads (the purchases, the
  search term, the two selectors) and the clock are parameters, the list it stores with
  \<^verbatim>\<open>setFilteredPurchases\<close> is the result. \<open>purchase_date\<close> holds the time value that
  \<^verbatim>\<open>new Date(purchase.purchase_date)\<close> yields for the stored timestamp.
\<close>

definition filterPurchases ::
    "int \<Rightarrow> Purchase list \<Rightarrow> string \<Rightarrow> string \<Rightarrow> string \<Rightarrow> Purchase list" where
  "filterPurchases now purchases searchTerm paymentMethodFilter dateFilter =
     (let filtered0 = purchases;
          filtered1 =
            (if searchTerm \<noteq> [] then
               filter (\<lambda>purchase.
                  includes_str (toLowerCase (description purchase)) (toLowerCase searchTerm))
                 filtered0
             else filtered0);
          filtered2 =
            (if paymentMethodFilter \<noteq> ''all'' then
               filter (\<lambda>purchase.
                  payment_method_str (payment_method purchase) = paymentMethodFilter)
                 filtered1
             else filtered1);
          filtered3 =
            (if dateFilter \<noteq> ''all'' then
               (if dateFilter = ''today'' then
                  (let filterDate = newDate (getFullYear now) (getMonth now) (getDate now)
                                      0 0 0 0
                   in filter (\<lambda>purchase. purchase_date purchase \<ge> filterDate) filtered2)
                else if dateFilter = ''week'' then
                  (let filterDate = now - 7 * 24 * 60 * 60 * 1000
                   in filter (\<lambda>purchase. purchase_date purchase \<ge> filterDate) filtered2)
                else if dateFilter = ''month'' then
                  (let filterDate = now - 30 * 24 * 60 * 60 * 1000
                   in filter (\<lambda>purchase. purchase_date purchase \<ge> filterDate) filtered2)
                else filtered2)
             else filtered2)
      in filtered3)"

subsection \<open>The criteria in the specification's words\<close>

text \<open>The threshold of a date window, where the window has one.\<close>

definition window_threshold :: "int \<Rightarrow> string \<Rightarrow> int option" where
  "window_threshold now window =
     (if window = ''today'' then
        Some (newDate (getFullYear now) (getMonth now) (getDate now) 0 0 0 0)
      else if window = ''week'' then Some (now - 7 * msPerDay)
      else if window = ''month'' then Some (now - 30 * msPerDay)
      else None)"

definition matches_criteria :: "int \<Rightarrow> string \<Rightarrow> string \<Rightarrow> string \<Rightarrow> Purchase \<Rightarrow> bool" where
  "matches_criteria now searchText method window purchase =
     ((searchText = []
        \<or> sublist (toLowerCase searchText) (toLowerCase (description purchase)))
      \<and> (method = ''all'' \<or> payment_method_str (payment_method purchase) = method)
      \<and> (case window_threshold now window of
            None \<Rightarrow> True
          | Some threshold \<Rightarrow> threshold \<le> purchase_date purchase))"

section \<open>Validation\<close>

text \<open>
  What \<^verbatim>\<open>parseFloat\<close> returns: not-a-number or a number. The parser itself is a
  parameter \<open>pf\<close> of the handlers, so every result below holds for whatever it returns
  on the text typed in.
\<close>

datatype jsnum = NaN | Num real

fun isNaN :: "jsnum \<Rightarrow> bool" where
  "isNaN NaN = True"
| "isNaN (Num v) = False"

text \<open>Comparisons with not-a-number are false.\<close>

fun js_less :: "jsnum \<Rightarrow> real \<Rightarrow> bool" where
  "js_less NaN b = False"
| "js_less (Num a) b = (a < b)"

fun js_greater :: "jsnum \<Rightarrow> real \<Rightarrow> bool" where
  "js_greater NaN b = False"
| "js_greater (Num a) b = (a > b)"

fun js_less_eq :: "jsnum \<Rightarrow> real \<Rightarrow> bool" where
  "js_less_eq NaN b = False"
| "js_less_eq (Num a) b = (a \<le> b)"

definition isWhiteSpace :: "char \<Rightarrow> bool" where
  "isWhiteSpace c =
     (c \<in> set [CHR '' '', CHR 0x09, CHR 0x0A, CHR 0x0B, CHR 0x0C, CHR 0x0D])"

definition trim :: "string \<Rightarrow> string" where
  "trim s = rev (dropWhile isWhiteSpace (rev (dropWhile isWhiteSpace s)))"

text \<open>
  A handler either returns at once because nobody is signed in, or stops with a
  validation message, or reaches the call of the backend with the row it built.
\<close>

datatype 'a outcome = NotSignedIn | Rejected string | Submitted 'a

fun accepted :: "'a outcome \<Rightarrow> bool" where
  "accepted (Submitted row) = True"
| "accepted other = False"

subsection \<open>Creating a budget\<close>

datatype BudgetType = Fixed | Percentage | Hybrid

record BudgetInsert =
  ins_user_id :: string
  ins_name :: string
  ins_color :: string
  ins_fixed_amount :: "real option"
  ins_percentage_amount :: "real option"

text \<open>\<^verbatim>\<open>handleSubmit\<close> of \<^verbatim>\<open>CreateBudgetModal\<close>, up to the call of \<^verbatim>\<open>insert\<close>.\<close>

definition handleSubmit ::
    "(string \<Rightarrow> jsnum) \<Rightarrow> string option \<Rightarrow> string \<Rightarrow> BudgetType \<Rightarrow> string \<Rightarrow> string \<Rightarrow> string
      \<Rightarrow> BudgetInsert outcome" where
  "handleSubmit pf user name budgetType fixedAmount percentageAmount colour =
     (case user of
        None \<Rightarrow> NotSignedIn
      | Some uid \<Rightarrow>
          if trim name = [] then Rejected ''Please enter a budget name''
          else
            (let budgetData = \<lparr>ins_user_id = uid, ins_name = trim name, ins_color = colour,
                               ins_fixed_amount = None, ins_percentage_amount = None\<rparr>
             in case budgetType of
                  Fixed \<Rightarrow>
                    (let parsedAmount = pf fixedAmount in
                     if isNaN parsedAmount \<or> js_less_eq parsedAmount 0 then
                       Rejected ''Please enter a valid fixed amount''
                     else
                       (case parsedAmount of
                          Num a \<Rightarrow> Submitted (budgetData\<lparr>ins_fixed_amount := Some a\<rparr>)
                        | NaN \<Rightarrow> Rejected ''Please enter a valid fixed amount''))
                | Percentage \<Rightarrow>
                    (let percentage = pf percentageAmount in
                     if isNaN percentage \<or> js_less_eq percentage 0 \<or> js_greater percentage 100
                     then Rejected ''Please enter a percentage between 1 and 100''
                     else
                       (case percentage of
                          Num p \<Rightarrow> Submitted (budgetData\<lparr>ins_percentage_amount := Some p\<rparr>)
                        | NaN \<Rightarrow> Rejected ''Please enter a percentage between 1 and 100''))
                | Hybrid \<Rightarrow>
                    (let fixed = pf fixedAmount; percentage = pf percentageAmount in
                     if isNaN fixed \<or> js_less_eq fixed 0 then
                       Rejected ''Please enter a valid fixed amount''
                     else if isNaN percentage \<or> js_less_eq percentage 0
                             \<or> js_greater percentage 100
                     then Rejected ''Please enter a percentage between 1 and 100''
                     else
                       (case (fixed, percentage) of
                          (Num a, Num p) \<Rightarrow>
                            Submitted (budgetData\<lparr>ins_fixed_amount := Some a,
                                                  ins_percentage_amount := Some p\<rparr>)
                        | _ \<Rightarrow> Rejected ''Please enter a valid fixed amount''))))"

subsection \<open>Editing a budget\<close>

record BudgetUpdate =
  upd_name :: string
  upd_color :: string
  upd_fixed_amount :: "jsnum option"
  upd_percentage_amount :: "jsnum option"

text \<open>
  \<^verbatim>\<open>handleEditSubmit\<close> of \<^verbatim>\<open>EditBudgetModal\<close>, up to the call of \<^verbatim>\<open>update\<close>. An
  empty text field is falsy and gives \<^verbatim>\<open>null\<close>.
\<close>

definition handleEditSubmit ::
    "(string \<Rightarrow> jsnum) \<Rightarrow> string \<Rightarrow> string \<Rightarrow> string \<Rightarrow> string \<Rightarrow> BudgetUpdate outcome" where
  "handleEditSubmit pf editName editFixed editPercent editColor =
     (if trim editName = [] then Rejected ''Please enter a budget name''
      else
        (let updateData =
               \<lparr>upd_name = trim editName, upd_color = editColor,
                upd_fixed_amount = (if editFixed \<noteq> [] then Some (pf editFixed) else None),
                upd_percentage_amount =
                  (if editPercent \<noteq> [] then Some (pf editPercent) else None)\<rparr>
         in if (case upd_fixed_amount updateData of
                  None \<Rightarrow> False
                | Some v \<Rightarrow> isNaN v \<or> js_less v 0)
            then Rejected ''Fixed amount must be a positive number''
            else if (case upd_percentage_amount updateData of
                       None \<Rightarrow> False
                     | Some v \<Rightarrow> isNaN v \<or> js_less v 0 \<or> js_greater v 100)
            then Rejected ''Percentage must be between 0 and 100''
            else Submitted updateData))"

subsection \<open>Adding a purchase\<close>

record PurchaseInsert =
  new_user_id :: string
  new_budget_id :: string
  new_amount :: real
  new_description :: string
  new_payment_method :: PaymentMethod
  new_purchase_date :: string

text \<open>The modal's state: the message shown, the busy flag, and whether it has closed.\<close>

record ModalState =
  error :: string
  loading :: bool
  closed :: bool

text \<open>
  The backend's answer to \<^verbatim>\<open>insert\<close>: done, an error message, or a thrown exception.
  The table \<open>'db\<close> and the insert \<open>ins\<close> are parameters, as is \<open>toISO\<close>, the conversion
  \<^verbatim>\<open>new Date(s).toISOString()\<close>, which throws on a text that is no date (\<open>None\<close>).
\<close>

datatype insert_result = InsertOk | InsertError string | InsertThrew

definition handleSubmit_purchase ::
    "(string \<Rightarrow> jsnum) \<Rightarrow> (string \<Rightarrow> string option)
      \<Rightarrow> (PurchaseInsert \<Rightarrow> 'db \<Rightarrow> insert_result \<times> 'db)
      \<Rightarrow> string option \<Rightarrow> string \<Rightarrow> string \<Rightarrow> string \<Rightarrow> PaymentMethod \<Rightarrow> string
      \<Rightarrow> ModalState \<times> 'db \<Rightarrow> ModalState \<times> 'db" where
  "handleSubmit_purchase pf toISO ins user budgetId amountText descr paymentMethod purchaseDate s =
     (case user of
        None \<Rightarrow> s
      | Some uid \<Rightarrow>
          (let st = (fst s)\<lparr>loading := True, error := []\<rparr>;
               db = snd s;
               purchaseAmount = pf amountText
           in if isNaN purchaseAmount \<or> js_less_eq purchaseAmount 0 then
                (st\<lparr>error := ''Please enter a valid amount'', loading := False\<rparr>, db)
              else
                (case (purchaseAmount, toISO (purchaseDate @ ''T00:00:00.000Z'')) of
                   (Num a, Some dateOnly) \<Rightarrow>
                     (case ins \<lparr>new_user_id = uid, new_budget_id = budgetId, new_amount = a,
                                new_description = descr, new_payment_method = paymentMethod,
                                new_purchase_date = dateOnly\<rparr> db of
                        (InsertOk, db') \<Rightarrow> (st\<lparr>loading := False, closed := True\<rparr>, db')
                      | (InsertError msg, db') \<Rightarrow> (st\<lparr>error := msg, loading := False\<rparr>, db')
                      | (InsertThrew, db') \<Rightarrow>
                          (st\<lparr>error := ''An unexpected error occurred'', loading := False\<rparr>,
                           db'))
                 | _ \<Rightarrow>
                     (st\<lparr>error := ''An unexpected error occurred'', loading := False\<rparr>,
                      db))))"

section \<open>Sample data\<close>

text \<open>
  The purchases of the specification's scenario, a parser that knows four texts, and a
  table that appends the inserted row: concrete inputs for the examples below.
\<close>

definition scenario_purchases :: "Purchase list" where
  "scenario_purchases =
     [\<lparr>purchase_ident = ''p1'', budget_id = ''A'', amount = 120, description = ''Groceries'',
       payment_method = Bank, purchase_date = 1710072000000\<rparr>,
      \<lparr>purchase_ident = ''p2'', budget_id = ''B'', amount = 50, description = ''Cinema'',
       payment_method = Credit, purchase_date = 1709900000000\<rparr>,
      \<lparr>purchase_ident = ''p3'', budget_id = ''C'', amount = 310, description = ''Bike repair'',
       payment_method = Cash, purchase_date = 1708000000000\<rparr>]"

definition parse_sample :: "string \<Rightarrow> jsnum" where
  "parse_sample s =
     (if s = ''0'' then Num 0
      else if s = ''-5'' then Num (- 5)
      else if s = ''100'' then Num 100
      else if s = ''250'' then Num 250
      else NaN)"

definition insert_sample ::
    "PurchaseInsert \<Rightarrow> PurchaseInsert list \<Rightarrow> insert_result \<times> PurchaseInsert list" where
  "insert_sample row table = (InsertOk, table @ [row])"

section \<open>Properties of the budget resolver\<close>

lemma calculateBudgetAmount_Some:
  "calculateBudgetAmount (Some up) b =
     (case (fixed_amount b, percentage_amount b) of
        (Some f, Some p) \<Rightarrow>
          if f \<noteq> 0 \<and> p \<noteq> 0 then min f (monthly_income up * p / 100)
          else if f \<noteq> 0 then f
          else monthly_income up * p / 100
      | (Some f, None) \<Rightarrow> f
      | (None, Some p) \<Rightarrow> monthly_income up * p / 100
      | (None, None) \<Rightarrow> 0)"
  by (cases "fixed_amount b"; cases "percentage_amount b")
     (auto simp: calculateBudgetAmount_def Let_def)

text \<open>
  C1 (as amended). When both amounts are set and neither is zero, the ceiling is exactly
  the lesser of the fixed amount and the percentage of the monthly income.
\<close>

theorem hybrid_ceiling_is_min:
  assumes "fixed_amount b = Some f" and "percentage_amount b = Some p"
    and "f \<noteq> 0" and "p \<noteq> 0"
  shows "calculateBudgetAmount (Some up) b = min f (monthly_income up * p / 100)"
  using assms by (simp add: calculateBudgetAmount_Some)

theorem hybrid_ceiling_is_min_witness:
  "calculateBudgetAmount
     (Some \<lparr>monthly_income = 3000, tracking_start_day = 1, display_name = None\<rparr>)
     \<lparr>budget_ident = ''C'', budget_name = ''C'', fixed_amount = Some 400,
      percentage_amount = Some 10, color = ''#FF6B35''\<rparr> = 300"
  using hybrid_ceiling_is_min
    [of "\<lparr>budget_ident = ''C'', budget_name = ''C'', fixed_amount = Some 400,
          percentage_amount = Some 10, color = ''#FF6B35''\<rparr>" 400 10
        "\<lparr>monthly_income = 3000, tracking_start_day = 1, display_name = None\<rparr>"]
  by simp

text \<open>
  C1 as stated fails: a fixed amount of zero is set (non-null), yet the ceiling is the
  percentage part and not the minimum of the two.
\<close>

theorem hybrid_zero_fixed_counterexample:
  "calculateBudgetAmount
     (Some \<lparr>monthly_income = 1000, tracking_start_day = 1, display_name = None\<rparr>)
     \<lparr>budget_ident = ''b'', budget_name = ''Food'', fixed_amount = Some 0,
      percentage_amount = Some 10, color = ''#FF6B35''\<rparr>
   \<noteq> min 0 (1000 * 10 / 100)"
  by (simp add: calculateBudgetAmount_def)

text \<open>
  C6. With a percentage set (and non-negative, as every stored percentage is), the ceiling
  does not decrease when the monthly income grows; with only a fixed amount set, the
  ceiling is that amount whatever the income.
\<close>

theorem ceiling_monotone_in_income:
  "(percentage_amount b = Some p \<longrightarrow> 0 \<le> p \<longrightarrow> monthly_income up1 \<le> monthly_income up2 \<longrightarrow>
      calculateBudgetAmount (Some up1) b \<le> calculateBudgetAmount (Some up2) b)
   \<and> (fixed_amount b = Some f \<longrightarrow> percentage_amount b = None \<longrightarrow>
      calculateBudgetAmount (Some up1) b = f \<and> calculateBudgetAmount (Some up2) b = f)"
proof (intro conjI impI)
  assume p: "percentage_amount b = Some p" and nonneg: "0 \<le> p"
    and le: "monthly_income up1 \<le> monthly_income up2"
  have part: "monthly_income up1 * p / 100 \<le> monthly_income up2 * p / 100"
    using nonneg le by (simp add: mult_right_mono divide_right_mono)
  show "calculateBudgetAmount (Some up1) b \<le> calculateBudgetAmount (Some up2) b"
  proof (cases "fixed_amount b")
    case None
    then show ?thesis using p part by (simp add: calculateBudgetAmount_Some)
  next
    case (Some f')
    then show ?thesis using p part
      by (auto simp: calculateBudgetAmount_Some min_def)
  qed
next
  assume "fixed_amount b = Some f" and "percentage_amount b = None"
  then show "calculateBudgetAmount (Some up1) b = f"
    by (simp add: calculateBudgetAmount_Some)
next
  assume "fixed_amount b = Some f" and "percentage_amount b = None"
  then show "calculateBudgetAmount (Some up2) b = f"
    by (simp add: calculateBudgetAmount_Some)
qed

theorem ceiling_monotone_in_income_witness:
  "calculateBudgetAmount
     (Some \<lparr>monthly_income = 2000, tracking_start_day = 1, display_name = None\<rparr>)
     \<lparr>budget_ident = ''B'', budget_name = ''B'', fixed_amount = None,
      percentage_amount = Some 20, color = ''#2DD4BF''\<rparr>
   \<le> calculateBudgetAmount
     (Some \<lparr>monthly_income = 3000, tracking_start_day = 1, display_name = None\<rparr>)
     \<lparr>budget_ident = ''B'', budget_name = ''B'', fixed_amount = None,
      percentage_amount = Some 20, color = ''#2DD4BF''\<rparr>
   \<and> calculateBudgetAmount
     (Some \<lparr>monthly_income = 2000, tracking_start_day = 1, display_name = None\<rparr>)
     \<lparr>budget_ident = ''A'', budget_name = ''A'', fixed_amount = Some 500,
      percentage_amount = None, color = ''#2DD4BF''\<rparr> = 500"
  using ceiling_monotone_in_income
    [of "\<lparr>budget_ident = ''B'', budget_name = ''B'', fixed_amount = None,
          percentage_amount = Some 20, color = ''#2DD4BF''\<rparr>" 20
        "\<lparr>monthly_income = 2000, tracking_start_day = 1, display_name = None\<rparr>"
        "\<lparr>monthly_income = 3000, tracking_start_day = 1, display_name = None\<rparr>" 500]
    ceiling_monotone_in_income
    [of "\<lparr>budget_ident = ''A'', budget_name = ''A'', fixed_amount = Some 500,
          percentage_amount = None, color = ''#2DD4BF''\<rparr>" 20
        "\<lparr>monthly_income = 2000, tracking_start_day = 1, display_name = None\<rparr>"
        "\<lparr>monthly_income = 3000, tracking_start_day = 1, display_name = None\<rparr>" 500]
  by simp

text \<open>
  C10. Zero counts as unset: with a fixed amount of zero and a percentage set, the ceiling
  is the percentage of the income; with a percentage of zero and a fixed amount set, the
  ceiling is the fixed amount.
\<close>

theorem zero_amount_treated_as_unset:
  "(fixed_amount b = Some 0 \<longrightarrow> percentage_amount b = Some p \<longrightarrow>
      calculateBudgetAmount (Some up) b = monthly_income up * p / 100)
   \<and> (percentage_amount b = Some 0 \<longrightarrow> fixed_amount b = Some f \<longrightarrow>
      calculateBudgetAmount (Some up) b = f)"
  by (auto simp: calculateBudgetAmount_Some)

theorem zero_amount_treated_as_unset_witness:
  "calculateBudgetAmount
     (Some \<lparr>monthly_income = 1000, tracking_start_day = 1, display_name = None\<rparr>)
     \<lparr>budget_ident = ''b'', budget_name = ''Food'', fixed_amount = Some 0,
      percentage_amount = Some 10, color = ''#FF6B35''\<rparr> = 100
   \<and> calculateBudgetAmount
     (Some \<lparr>monthly_income = 1000, tracking_start_day = 1, display_name = None\<rparr>)
     \<lparr>budget_ident = ''b'', budget_name = ''Rent'', fixed_amount = Some 700,
      percentage_amount = Some 0, color = ''#FF6B35''\<rparr> = 700"
  using zero_amount_treated_as_unset
    [of "\<lparr>budget_ident = ''b'', budget_name = ''Food'', fixed_amount = Some 0,
          percentage_amount = Some 10, color = ''#FF6B35''\<rparr>" 10
        "\<lparr>monthly_income = 1000, tracking_start_day = 1, display_name = None\<rparr>" 700]
    zero_amount_treated_as_unset
    [of "\<lparr>budget_ident = ''b'', budget_name = ''Rent'', fixed_amount = Some 700,
          percentage_amount = Some 0, color = ''#FF6B35''\<rparr>" 0
        "\<lparr>monthly_income = 1000, tracking_start_day = 1, display_name = None\<rparr>" 700]
  by simp

section \<open>The calendar of the runtime\<close>

subsection \<open>Years\<close>

text \<open>
  The day on which a year starts lies within two days of the mean-year estimate, so
  \<open>DayFromYear\<close> is strictly increasing and \<open>YearFromDay\<close> finds the one year that
  contains a given day.
\<close>

lemma div_bounds:
  fixes k x :: int
  assumes "0 < k"
  shows "k * (x div k) \<le> x" and "x < k * (x div k) + k"
proof -
  have "x = k * (x div k) + x mod k" by simp
  moreover have "0 \<le> x mod k" "x mod k < k" using assms by simp_all
  ultimately show "k * (x div k) \<le> x" and "x < k * (x div k) + k" by linarith+
qed

lemma DayFromYear_approx:
  "146097 * y - 287811596 \<le> 400 * DayFromYear y"
  "400 * DayFromYear y \<le> 146097 * y - 287810501"
proof -
  define a where "a = (y - 1969) div 4"
  define b where "b = (y - 1901) div 100"
  define c where "c = (y - 1601) div 400"
  have a: "4 * a \<le> y - 1969" "y - 1969 < 4 * a + 4"
    unfolding a_def by (rule div_bounds, simp)+
  have b: "100 * b \<le> y - 1901" "y - 1901 < 100 * b + 100"
    unfolding b_def by (rule div_bounds, simp)+
  have c: "400 * c \<le> y - 1601" "y - 1601 < 400 * c + 400"
    unfolding c_def by (rule div_bounds, simp)+
  have D: "DayFromYear y = 365 * y - 719050 + a - b + c"
    by (simp add: DayFromYear_def a_def b_def c_def)
  show "146097 * y - 287811596 \<le> 400 * DayFromYear y"
    using a b c D by linarith
  show "400 * DayFromYear y \<le> 146097 * y - 287810501"
    using a b c D by linarith
qed

lemma DayFromYear_less: "y1 < y2 \<Longrightarrow> DayFromYear y1 < DayFromYear y2"
  using DayFromYear_approx(2) [of y1] DayFromYear_approx(1) [of y2] by linarith

lemma DayFromYear_mono: "y1 \<le> y2 \<Longrightarrow> DayFromYear y1 \<le> DayFromYear y2"
  using DayFromYear_less [of y1 y2] by (cases "y1 = y2") auto

lemma YearFromDay_bounds:
  "DayFromYear (YearFromDay d) \<le> d" "d < DayFromYear (YearFromDay d + 1)"
proof -
  define q where "q = (400 * d) div 146097"
  define y where "y = 1970 + q"
  define ym where "ym = y - 1"
  define yp where "yp = y + 2"
  have q: "146097 * q \<le> 400 * d" "400 * d < 146097 * q + 146097"
    unfolding q_def by (rule div_bounds, simp)+
  have lo: "DayFromYear ym \<le> d"
    using DayFromYear_approx(2) [of ym] q y_def ym_def by linarith
  have hi: "d < DayFromYear yp"
    using DayFromYear_approx(1) [of yp] q y_def yp_def by linarith
  have Y: "YearFromDay d = (if d < DayFromYear y then y - 1
      else if DayFromYear (y + 1) \<le> d then y + 1 else y)"
    by (simp add: YearFromDay_def y_def q_def Let_def)
  show "DayFromYear (YearFromDay d) \<le> d"
    using lo by (simp add: Y ym_def)
  show "d < DayFromYear (YearFromDay d + 1)"
    using hi by (simp add: Y yp_def add.commute)
qed

lemma YearFromDay_unique:
  assumes "DayFromYear y \<le> d" and "d < DayFromYear (y + 1)"
  shows "YearFromDay d = y"
proof (rule ccontr)
  assume ne: "YearFromDay d \<noteq> y"
  let ?z = "YearFromDay d"
  show False
  proof (cases "?z < y")
    case True
    then have "DayFromYear (?z + 1) \<le> DayFromYear y" by (simp add: DayFromYear_mono)
    then show False using YearFromDay_bounds(2) [of d] assms(1) by linarith
  next
    case False
    then have "y + 1 \<le> ?z" using ne by linarith
    then have "DayFromYear (y + 1) \<le> DayFromYear ?z" by (rule DayFromYear_mono)
    then show False using YearFromDay_bounds(1) [of d] assms(2) by linarith
  qed
qed

lemma div_step:
  fixes x k :: int
  assumes "1 < k"
  shows "(x + 1) div k = x div k + (if (x + 1) mod k = 0 then 1 else 0)"
proof -
  have a: "x = k * (x div k) + x mod k" by simp
  have r: "0 \<le> x mod k" "x mod k < k" using assms by simp_all
  show ?thesis
  proof (cases "x mod k + 1 = k")
    case True
    have "x + 1 = k * (x div k) + (x mod k + 1)" using a by linarith
    also have "\<dots> = k * (x div k) + k" using True by simp
    finally have e: "x + 1 = k * (x div k + 1) + 0" by (simp add: distrib_left)
    have "(x + 1) div k = x div k + 1" by (rule int_div_pos_eq [OF e]) (use assms in simp_all)
    moreover have "(x + 1) mod k = 0" by (rule int_mod_pos_eq [OF e]) (use assms in simp_all)
    ultimately show ?thesis by simp
  next
    case False
    then have lt: "x mod k + 1 < k" using r by linarith
    have e: "x + 1 = k * (x div k) + (x mod k + 1)" using a by linarith
    have "(x + 1) div k = x div k" by (rule int_div_pos_eq [OF e]) (use r lt in simp_all)
    moreover have "(x + 1) mod k = x mod k + 1" by (rule int_mod_pos_eq [OF e]) (use r lt in simp_all)
    ultimately show ?thesis using r by simp
  qed
qed

lemma mod_shift: "(y - k * n) mod k = y mod k" for y k n :: int
proof -
  have "y - k * n = y + k * (- n)" by simp
  then show ?thesis by (simp only: mod_mult_self2)
qed

lemma step4: "(y - 1968) div 4 = (y - 1969) div 4 + (if y mod 4 = 0 then 1 else 0)" for y :: int
  using div_step [of 4 "y - 1969"] mod_shift [of y 4 492] by simp

lemma step100: "(y - 1900) div 100 = (y - 1901) div 100 + (if y mod 100 = 0 then 1 else 0)" for y :: int
  using div_step [of 100 "y - 1901"] mod_shift [of y 100 19] by simp

lemma step400: "(y - 1600) div 400 = (y - 1601) div 400 + (if y mod 400 = 0 then 1 else 0)" for y :: int
  using div_step [of 400 "y - 1601"] mod_shift [of y 400 4] by simp

lemma dvd_mod_0: "y mod m = 0 \<Longrightarrow> k dvd m \<Longrightarrow> y mod k = 0" for y m k :: int
  by (meson dvd_trans mod_0_imp_dvd dvd_imp_mod_0)

lemma DayFromYear_Suc: "DayFromYear (y + 1) = DayFromYear y + DaysInYear y"
proof -
  define A where "A = (y - 1969) div 4"
  define B where "B = (y - 1901) div 100"
  define C where "C = (y - 1601) div 400"
  define p4 where "p4 \<longleftrightarrow> y mod 4 = 0"
  define p100 where "p100 \<longleftrightarrow> y mod 100 = 0"
  define p400 where "p400 \<longleftrightarrow> y mod 400 = 0"
  have m1: "p100 \<Longrightarrow> p4"
    unfolding p100_def p4_def by (rule dvd_mod_0 [of y 100 4]) simp_all
  have m2: "p400 \<Longrightarrow> p100"
    unfolding p100_def p400_def by (rule dvd_mod_0 [of y 400 100]) simp_all
  have s4: "(y - 1968) div 4 = A + (if p4 then 1 else 0)"
    unfolding A_def p4_def by (rule step4)
  have s100: "(y - 1900) div 100 = B + (if p100 then 1 else 0)"
    unfolding B_def p100_def by (rule step100)
  have s400: "(y - 1600) div 400 = C + (if p400 then 1 else 0)"
    unfolding C_def p400_def by (rule step400)
  have "DayFromYear (y + 1) =
      365 * y - 718685 + (y - 1968) div 4 - (y - 1900) div 100 + (y - 1600) div 400"
    by (simp add: DayFromYear_def)
  also have "\<dots> = 365 * y - 718685 + (A + (if p4 then 1 else 0))
      - (B + (if p100 then 1 else 0)) + (C + (if p400 then 1 else 0))"
    by (simp only: s4 s100 s400)
  finally have L: "DayFromYear (y + 1) = 365 * y - 718685 + (A + (if p4 then 1 else 0))
      - (B + (if p100 then 1 else 0)) + (C + (if p400 then 1 else 0))" .
  have R1: "DayFromYear y = 365 * y - 719050 + A - B + C"
    by (simp add: DayFromYear_def A_def B_def C_def)
  have R2: "DaysInYear y = (if \<not> p4 then 365 else if \<not> p100 then 366
      else if \<not> p400 then 365 else 366)"
    by (simp only: DaysInYear_def p4_def p100_def p400_def)
  show ?thesis
    unfolding L R1 R2 using m1 m2 by (cases p4; cases p100; cases p400) simp_all
qed

subsection \<open>Month tables\<close>

text \<open>
  The tables that take a day within the year to its month and date invert the table of
  month starts, for common years (\<open>l = 0\<close>) and leap years (\<open>l = 1\<close>).
\<close>

lemma LeapOfYear_cases: "LeapOfYear y = 0 \<or> LeapOfYear y = 1"
  by (simp add: LeapOfYear_def)

lemma DaysInYear_leap: "DaysInYear y = 365 + LeapOfYear y"
  by (simp add: LeapOfYear_def DaysInYear_def)

lemma month_cases: "0 \<le> m \<Longrightarrow> m \<le> 11 \<Longrightarrow>
  m = 0 \<or> m = 1 \<or> m = 2 \<or> m = 3 \<or> m = 4 \<or> m = 5 \<or> m = 6 \<or> m = 7 \<or> m = 8 \<or> m = 9
  \<or> m = 10 \<or> m = 11" for m :: int
  by presburger

lemma MonthFromDayWithinYear_range:
  "0 \<le> MonthFromDayWithinYear d l" "MonthFromDayWithinYear d l \<le> 11"
  by (simp_all add: MonthFromDayWithinYear_def)

lemma table_forward:
  assumes "0 \<le> d" "d < 365 + l" "l = 0 \<or> l = 1"
  shows "MonthStart (MonthFromDayWithinYear d l) l + DateFromDayWithinYear d l - 1 = d"
    and "1 \<le> DateFromDayWithinYear d l"
    and "DateFromDayWithinYear d l \<le> DaysInMonth (MonthFromDayWithinYear d l) l"
proof -
  show "MonthStart (MonthFromDayWithinYear d l) l + DateFromDayWithinYear d l - 1 = d"
    using assms
    by (simp add: MonthStart_def MonthFromDayWithinYear_def DateFromDayWithinYear_def Let_def)
  show "1 \<le> DateFromDayWithinYear d l"
    using assms by (simp add: MonthFromDayWithinYear_def DateFromDayWithinYear_def Let_def)
  show "DateFromDayWithinYear d l \<le> DaysInMonth (MonthFromDayWithinYear d l) l"
    using assms
    by (simp add: MonthFromDayWithinYear_def DateFromDayWithinYear_def Let_def DaysInMonth_def)
qed

lemma table_backward:
  assumes "0 \<le> m" "m \<le> 11" "1 \<le> dt" "dt \<le> DaysInMonth m l" "l = 0 \<or> l = 1"
  shows "MonthFromDayWithinYear (MonthStart m l + dt - 1) l = m"
    and "DateFromDayWithinYear (MonthStart m l + dt - 1) l = dt"
    and "0 \<le> MonthStart m l + dt - 1"
    and "MonthStart m l + dt - 1 < 365 + l"
proof -
  note c = month_cases [OF assms(1,2)]
  show "MonthFromDayWithinYear (MonthStart m l + dt - 1) l = m"
    using c assms(3,4,5)
    by (elim disjE; simp add: MonthStart_def MonthFromDayWithinYear_def DaysInMonth_def)
  show "DateFromDayWithinYear (MonthStart m l + dt - 1) l = dt"
    using c assms(3,4,5)
    by (elim disjE; simp add: MonthStart_def MonthFromDayWithinYear_def
        DateFromDayWithinYear_def DaysInMonth_def Let_def)
  show "0 \<le> MonthStart m l + dt - 1"
    using c assms(3,4,5) by (elim disjE; simp add: MonthStart_def DaysInMonth_def)
  show "MonthStart m l + dt - 1 < 365 + l"
    using c assms(3,4,5) by (elim disjE; simp add: MonthStart_def DaysInMonth_def)
qed

lemma MonthStart_next:
  assumes "0 \<le> m" "m \<le> 10"
  shows "MonthStart (m + 1) l = MonthStart m l + DaysInMonth m l"
proof -
  have "m = 0 \<or> m = 1 \<or> m = 2 \<or> m = 3 \<or> m = 4 \<or> m = 5 \<or> m = 6 \<or> m = 7 \<or> m = 8 \<or> m = 9
    \<or> m = 10" using assms by presburger
  then show ?thesis
    by (elim disjE; simp add: MonthStart_def DaysInMonth_def)
qed

lemma DaysInMonth_ge_28: "l = 0 \<or> l = 1 \<Longrightarrow> 28 \<le> DaysInMonth m l"
  by (auto simp: DaysInMonth_def)

subsection \<open>Days, months and dates of a time value\<close>

lemma Day_bounds: "Day t * msPerDay \<le> t" "t < Day t * msPerDay + msPerDay"
  using div_bounds [of msPerDay t] by (simp_all add: Day_def msPerDay_def mult.commute)

lemma Day_MakeDate:
  assumes "0 \<le> tm" "tm < msPerDay"
  shows "Day (MakeDate d tm) = d" and "TimeWithinDay (MakeDate d tm) = tm"
proof -
  have e: "MakeDate d tm = msPerDay * d + tm" by (simp add: MakeDate_def)
  show "Day (MakeDate d tm) = d"
    unfolding Day_def by (rule int_div_pos_eq [OF e assms])
  show "TimeWithinDay (MakeDate d tm) = tm"
    unfolding TimeWithinDay_def by (rule int_mod_pos_eq [OF e assms])
qed

lemma DayWithinYear_range:
  "0 \<le> DayWithinYear t" "DayWithinYear t < 365 + InLeapYear t"
  using YearFromDay_bounds [of "Day t"]
  by (simp_all add: DayWithinYear_def YearFromTime_def InLeapYear_def DayFromYear_Suc
      DaysInYear_leap)

lemma MonthFromTime_range: "0 \<le> MonthFromTime t" "MonthFromTime t \<le> 11"
  by (simp_all add: MonthFromTime_def MonthFromDayWithinYear_range)

lemma DateFromTime_range:
  "1 \<le> DateFromTime t"
  "DateFromTime t \<le> DaysInMonth (MonthFromTime t) (InLeapYear t)"
  unfolding DateFromTime_def MonthFromTime_def
  by (rule table_forward [OF DayWithinYear_range]; simp add: InLeapYear_def LeapOfYear_cases)+

lemma MakeDay_in_range:
  assumes "0 \<le> m" "m \<le> 11"
  shows "MakeDay y m d = DayFromYear y + MonthStart m (LeapOfYear y) + d - 1"
proof -
  have "m div 12 = 0" "m mod 12 = m" using assms by simp_all
  then show ?thesis by (simp add: MakeDay_def)
qed

lemma MakeDay_fields:
  "MakeDay (YearFromTime t) (MonthFromTime t) (DateFromTime t) = Day t"
proof -
  have "MonthStart (MonthFromTime t) (InLeapYear t) + DateFromTime t - 1 = DayWithinYear t"
    unfolding DateFromTime_def MonthFromTime_def
    by (rule table_forward [OF DayWithinYear_range]) (simp add: InLeapYear_def LeapOfYear_cases)
  then show ?thesis
    by (simp add: MakeDay_in_range [OF MonthFromTime_range] InLeapYear_def DayWithinYear_def)
qed

lemma MakeDay_add: "MakeDay y m (d + k) = MakeDay y m d + k"
  by (simp add: MakeDay_def Let_def)

lemma month_norm: "0 \<le> m mod 12" "m mod 12 \<le> 11" for m :: int
  by simp_all

lemma MakeDay_next_month:
  "MakeDay y (m + 1) d = MakeDay y m (d + DaysInMonth (m mod 12) (LeapOfYear (y + m div 12)))"
proof (cases "(m + 1) mod 12 = 0")
  case True
  have s: "(m + 1) div 12 = m div 12 + 1" using div_step [of 12 m] True by simp
  have r: "m mod 12 = 11"
  proof -
    have "m = 12 * (m div 12) + m mod 12" by simp
    moreover have "m + 1 = 12 * ((m + 1) div 12) + (m + 1) mod 12" by simp
    ultimately show ?thesis using s True by linarith
  qed
  show ?thesis
    by (simp add: MakeDay_def Let_def True s r add.assoc [symmetric] DayFromYear_Suc
        DaysInYear_leap MonthStart_def DaysInMonth_def)
next
  case False
  have s: "(m + 1) div 12 = m div 12" using div_step [of 12 m] False by simp
  have r: "(m + 1) mod 12 = m mod 12 + 1"
  proof -
    have "m = 12 * (m div 12) + m mod 12" by simp
    moreover have "m + 1 = 12 * ((m + 1) div 12) + (m + 1) mod 12" by simp
    ultimately show ?thesis using s by linarith
  qed
  have le: "m mod 12 \<le> 10"
  proof -
    have "(m + 1) mod 12 \<le> 11" by simp
    then show ?thesis using r by linarith
  qed
  show ?thesis
    by (simp add: MakeDay_def Let_def s r MonthStart_next [OF _ le])
qed

lemma fields_MakeDay:
  assumes "1 \<le> dt" "dt \<le> DaysInMonth (m mod 12) (LeapOfYear (y + m div 12))"
    and "0 \<le> tm" "tm < msPerDay"
  shows "YearFromTime (MakeDate (MakeDay y m dt) tm) = y + m div 12"
    and "MonthFromTime (MakeDate (MakeDay y m dt) tm) = m mod 12"
    and "DateFromTime (MakeDate (MakeDay y m dt) tm) = dt"
proof -
  let ?ym = "y + m div 12" and ?mn = "m mod 12"
  let ?l = "LeapOfYear ?ym"
  let ?t = "MakeDate (MakeDay y m dt) tm"
  note tb = table_backward [OF month_norm assms(1,2) LeapOfYear_cases]
  have D: "Day ?t = DayFromYear ?ym + (MonthStart ?mn ?l + dt - 1)"
    by (simp add: Day_MakeDate [OF assms(3,4)] MakeDay_def Let_def)
  have Y: "YearFromTime ?t = ?ym"
    unfolding YearFromTime_def D
    by (rule YearFromDay_unique) (use tb(3,4) in \<open>simp_all add: DayFromYear_Suc DaysInYear_leap\<close>)
  show "YearFromTime ?t = ?ym" by (rule Y)
  have W: "DayWithinYear ?t = MonthStart ?mn ?l + dt - 1"
    by (simp add: DayWithinYear_def Y D)
  show "MonthFromTime ?t = ?mn"
    by (simp only: MonthFromTime_def W InLeapYear_def Y tb(1))
  show "DateFromTime ?t = dt"
    by (simp only: DateFromTime_def W InLeapYear_def Y tb(2))
qed

lemma YearFromTime_epoch: "0 \<le> t \<Longrightarrow> 1970 \<le> YearFromTime t"
proof (rule ccontr)
  assume t: "0 \<le> t" and "\<not> 1970 \<le> YearFromTime t"
  then have "YearFromTime t + 1 \<le> 1970" by linarith
  then have "DayFromYear (YearFromTime t + 1) \<le> DayFromYear 1970" by (rule DayFromYear_mono)
  moreover have "DayFromYear 1970 = 0" by (simp add: DayFromYear_def)
  moreover have "0 \<le> Day t" using t by (simp add: Day_def msPerDay_def pos_imp_zdiv_nonneg_iff)
  ultimately show False using YearFromDay_bounds(2) [of "Day t"] by (simp add: YearFromTime_def)
qed

section \<open>Properties of the period calculator\<close>

lemma MakeTime_midnight: "MakeTime 0 0 0 0 = 0"
  by (simp add: MakeTime_def)

lemma MakeTime_last: "MakeTime 23 59 59 999 = 86399999"
  by (simp add: MakeTime_def msPerHour_def msPerMinute_def msPerSecond_def)

lemma newDate_plain:
  "\<not> (0 \<le> y \<and> y \<le> 99) \<Longrightarrow>
     newDate y m d h mi s ms = MakeDate (MakeDay y m d) (MakeTime h mi s ms)"
  by (auto simp: newDate_def)

lemma MakeDay_norm:
  "MakeDay y m d = first_day_of_month (y + m div 12, m mod 12) + (d - 1)"
  by (simp add: MakeDay_def first_day_of_month_def Let_def)

lemma next_month_norm:
  assumes "0 \<le> m" "m \<le> 11"
  shows "(y + (m + 1) div 12, (m + 1) mod 12) = next_month (y, m)"
proof (cases "m = 11")
  case True
  then show ?thesis by simp
next
  case False
  then have "0 \<le> m + 1" "m + 1 < 12" using assms by linarith+
  then have "(m + 1) div 12 = 0" "(m + 1) mod 12 = m + 1" by simp_all
  then show ?thesis using False by simp
qed

lemma prev_month_norm:
  assumes "0 \<le> m" "m \<le> 11"
  shows "(y + (m - 1) div 12, (m - 1) mod 12) = prev_month (y, m)"
proof (cases "m = 0")
  case True
  have e: "(-1::int) = 12 * (-1) + 11" by simp
  have "(- 1 :: int) div 12 = - 1" by (rule int_div_pos_eq [OF e]) simp_all
  moreover have "(- 1 :: int) mod 12 = 11" by (rule int_mod_pos_eq [OF e]) simp_all
  ultimately show ?thesis using True by simp
next
  case False
  then have "0 \<le> m - 1" "m - 1 < 12" using assms by linarith+
  then have "(m - 1) div 12 = 0" "(m - 1) mod 12 = m - 1" by simp_all
  then show ?thesis using False by simp
qed

lemma same_month_norm:
  fixes y m :: int
  assumes "0 \<le> m" "m \<le> 11"
  shows "(y + m div 12, m mod 12) = (y, m)"
  using assms by simp

lemma code_refines_spec:
  assumes "0 \<le> now"
  shows "getCurrentTrackingPeriod now tsd = currentPeriod_spec now tsd"
proof -
  let ?y = "YearFromTime now" and ?m = "MonthFromTime now"
  have y: "\<not> (0 \<le> ?y \<and> ?y \<le> 99)"
    using YearFromTime_epoch [OF assms] by linarith
  note m = MonthFromTime_range [of now]
  show ?thesis
    unfolding getCurrentTrackingPeriod_def currentPeriod_spec_def Let_def month_of_def
      getFullYear_def getMonth_def getDate_def
    by (simp only: newDate_plain [OF y] MakeDay_norm next_month_norm [OF m]
        prev_month_norm [OF m] same_month_norm [OF m] MakeTime_midnight MakeTime_last
        day_of_month_at_def MakeDate_def)
qed

lemma day_of_month_at_fields:
  assumes "0 \<le> m" "m \<le> 11" "1 \<le> d" "d \<le> DaysInMonth m (LeapOfYear y)"
    and "0 \<le> tm" "tm < msPerDay"
  shows "month_of (day_of_month_at (y, m) d tm) = (y, m)"
    and "getDate (day_of_month_at (y, m) d tm) = d"
    and "TimeWithinDay (day_of_month_at (y, m) d tm) = tm"
proof -
  have n: "m div 12 = 0" "m mod 12 = m" using assms(1,2) by simp_all
  have e: "day_of_month_at (y, m) d tm = MakeDate (MakeDay y m d) tm"
    by (simp add: day_of_month_at_def MakeDate_def MakeDay_norm n)
  have d': "d \<le> DaysInMonth (m mod 12) (LeapOfYear (y + m div 12))"
    using assms(4) by (simp add: n)
  show "month_of (day_of_month_at (y, m) d tm) = (y, m)"
    unfolding e month_of_def getFullYear_def getMonth_def
    by (simp add: fields_MakeDay(1,2) [OF assms(3) d' assms(5,6)] n)
  show "getDate (day_of_month_at (y, m) d tm) = d"
    unfolding e getDate_def by (rule fields_MakeDay(3) [OF assms(3) d' assms(5,6)])
  show "TimeWithinDay (day_of_month_at (y, m) d tm) = tm"
    unfolding e by (rule Day_MakeDate(2) [OF assms(5,6)])
qed

lemma MakeDate_lower: "D0 \<le> Day now \<Longrightarrow> MakeDate D0 0 \<le> now"
proof -
  assume "D0 \<le> Day now"
  then have "D0 * msPerDay \<le> Day now * msPerDay"
    by (simp add: mult_right_mono msPerDay_def)
  then show ?thesis using Day_bounds(1) [of now] by (simp add: MakeDate_def)
qed

lemma MakeDate_upper: "Day now \<le> D1 \<Longrightarrow> now \<le> MakeDate D1 86399999"
proof -
  assume "Day now \<le> D1"
  then have "Day now * msPerDay \<le> D1 * msPerDay"
    by (simp add: mult_right_mono msPerDay_def)
  then show ?thesis using Day_bounds(2) [of now] by (simp add: MakeDate_def msPerDay_def)
qed

lemma MakeDate_end_succ: "MakeDate (MakeDay y m (d - 1)) 86399999 + 1 = MakeDate (MakeDay y m d) 0"
proof -
  have "MakeDay y m d = MakeDay y m (d - 1) + 1"
    using MakeDay_add [of y m "d - 1" 1] by simp
  then show ?thesis by (simp add: MakeDate_def msPerDay_def algebra_simps)
qed

lemma MakeDay_mono: "d1 \<le> d2 \<Longrightarrow> MakeDay y m d1 \<le> MakeDay y m d2"
  by (simp add: MakeDay_def Let_def)

lemma MakeDay_prev_month:
  "MakeDay y (m - 1) d =
     MakeDay y m (d - DaysInMonth ((m - 1) mod 12) (LeapOfYear (y + (m - 1) div 12)))"
  using MakeDay_next_month [of y "m - 1"
      "d - DaysInMonth ((m - 1) mod 12) (LeapOfYear (y + (m - 1) div 12))"]
  by simp

lemmas date_defs =
  date_fields_def getFullYear_def getMonth_def getDate_def HourFromTime_def MinFromTime_def
  SecFromTime_def msFromTime_def YearFromTime_def MonthFromTime_def DateFromTime_def
  DayWithinYear_def InLeapYear_def LeapOfYear_def DaysInYear_def DayFromYear_def
  YearFromDay_def Day_def TimeWithinDay_def msPerDay_def msPerHour_def msPerMinute_def
  msPerSecond_def MonthFromDayWithinYear_def DateFromDayWithinYear_def MonthStart_def
  MakeDay_def MakeDate_def MakeTime_def newDate_def Let_def

lemma scenario_march_10:
  assumes "getFullYear now = 2024" "getMonth now = 2" "getDate now = 10"
  shows "date_fields (periodStart (getCurrentTrackingPeriod now 15)) = (2024, 1, 15, 0, 0, 0, 0)"
    and "date_fields (periodEnd (getCurrentTrackingPeriod now 15)) = (2024, 2, 14, 23, 59, 59, 999)"
proof -
  have p: "getCurrentTrackingPeriod now 15 =
      \<lparr>periodStart = newDate 2024 1 15 0 0 0 0, periodEnd = newDate 2024 2 14 23 59 59 999\<rparr>"
    by (simp add: getCurrentTrackingPeriod_def assms)
  show "date_fields (periodStart (getCurrentTrackingPeriod now 15)) = (2024, 1, 15, 0, 0, 0, 0)"
    unfolding p by (simp add: date_defs)
  show "date_fields (periodEnd (getCurrentTrackingPeriod now 15)) = (2024, 2, 14, 23, 59, 59, 999)"
    unfolding p by (simp add: date_defs)
qed

lemma scenario_march_20:
  assumes "getFullYear now = 2024" "getMonth now = 2" "getDate now = 20"
  shows "date_fields (periodStart (getCurrentTrackingPeriod now 15)) = (2024, 2, 15, 0, 0, 0, 0)"
    and "date_fields (periodEnd (getCurrentTrackingPeriod now 15)) = (2024, 3, 14, 23, 59, 59, 999)"
proof -
  have p: "getCurrentTrackingPeriod now 15 =
      \<lparr>periodStart = newDate 2024 2 15 0 0 0 0, periodEnd = newDate 2024 3 14 23 59 59 999\<rparr>"
    by (simp add: getCurrentTrackingPeriod_def assms)
  show "date_fields (periodStart (getCurrentTrackingPeriod now 15)) = (2024, 2, 15, 0, 0, 0, 0)"
    unfolding p by (simp add: date_defs)
  show "date_fields (periodEnd (getCurrentTrackingPeriod now 15)) = (2024, 3, 14, 23, 59, 59, 999)"
    unfolding p by (simp add: date_defs)
qed

text \<open>
  C2. For a clock reading \<open>now\<close> at or after the epoch and every tracking start day, the
  period is the one of the two-branch algorithm: from the start day of the current month
  at 00:00:00.000 to the day before it in the next month at 23:59:59.999 when the day of
  \<open>now\<close> has reached the start day, and from the start day of the previous month to the
  day before it in the current month otherwise. With start day 15, any instant of
  2024-03-10 gives 2024-02-15 00:00:00.000 to 2024-03-14 23:59:59.999, and any instant of
  2024-03-20 gives 2024-03-15 00:00:00.000 to 2024-04-14 23:59:59.999 (months count from 0).
\<close>

theorem period_two_branch_algorithm:
  "(0 \<le> now \<longrightarrow> getCurrentTrackingPeriod now tsd = currentPeriod_spec now tsd)
   \<and> (getFullYear now = 2024 \<and> getMonth now = 2 \<and> getDate now = 10 \<longrightarrow>
        date_fields (periodStart (getCurrentTrackingPeriod now 15)) = (2024, 1, 15, 0, 0, 0, 0)
        \<and> date_fields (periodEnd (getCurrentTrackingPeriod now 15))
            = (2024, 2, 14, 23, 59, 59, 999))
   \<and> (getFullYear now = 2024 \<and> getMonth now = 2 \<and> getDate now = 20 \<longrightarrow>
        date_fields (periodStart (getCurrentTrackingPeriod now 15)) = (2024, 2, 15, 0, 0, 0, 0)
        \<and> date_fields (periodEnd (getCurrentTrackingPeriod now 15))
            = (2024, 3, 14, 23, 59, 59, 999))"
proof (intro conjI impI)
  assume "0 \<le> now"
  then show "getCurrentTrackingPeriod now tsd = currentPeriod_spec now tsd"
    by (rule code_refines_spec)
next
  assume "getFullYear now = 2024 \<and> getMonth now = 2 \<and> getDate now = 10"
  then have a: "getFullYear now = 2024" "getMonth now = 2" "getDate now = 10" by simp_all
  show "date_fields (periodStart (getCurrentTrackingPeriod now 15)) = (2024, 1, 15, 0, 0, 0, 0)"
    by (rule scenario_march_10(1) [OF a])
  show "date_fields (periodEnd (getCurrentTrackingPeriod now 15)) = (2024, 2, 14, 23, 59, 59, 999)"
    by (rule scenario_march_10(2) [OF a])
next
  assume "getFullYear now = 2024 \<and> getMonth now = 2 \<and> getDate now = 20"
  then have a: "getFullYear now = 2024" "getMonth now = 2" "getDate now = 20" by simp_all
  show "date_fields (periodStart (getCurrentTrackingPeriod now 15)) = (2024, 2, 15, 0, 0, 0, 0)"
    by (rule scenario_march_20(1) [OF a])
  show "date_fields (periodEnd (getCurrentTrackingPeriod now 15)) = (2024, 3, 14, 23, 59, 59, 999)"
    by (rule scenario_march_20(2) [OF a])
qed

lemma fields_2024_03_10: "date_fields 1710072000000 = (2024, 2, 10, 12, 0, 0, 0)"
  by (simp add: date_defs)

lemma fields_2024_03_20: "date_fields 1710970245500 = (2024, 2, 20, 21, 30, 45, 500)"
  by (simp add: date_defs)

theorem period_two_branch_algorithm_witness:
  "getCurrentTrackingPeriod 1710072000000 15 = currentPeriod_spec 1710072000000 15
   \<and> date_fields (periodStart (getCurrentTrackingPeriod 1710072000000 15))
       = (2024, 1, 15, 0, 0, 0, 0)
   \<and> date_fields (periodEnd (getCurrentTrackingPeriod 1710072000000 15))
       = (2024, 2, 14, 23, 59, 59, 999)
   \<and> date_fields (periodStart (getCurrentTrackingPeriod 1710970245500 15))
       = (2024, 2, 15, 0, 0, 0, 0)
   \<and> date_fields (periodEnd (getCurrentTrackingPeriod 1710970245500 15))
       = (2024, 3, 14, 23, 59, 59, 999)"
proof -
  have a: "getFullYear 1710072000000 = 2024 \<and> getMonth 1710072000000 = 2
      \<and> getDate 1710072000000 = 10"
    using fields_2024_03_10 by (simp add: date_fields_def)
  have b: "getFullYear 1710970245500 = 2024 \<and> getMonth 1710970245500 = 2
      \<and> getDate 1710970245500 = 20"
    using fields_2024_03_20 by (simp add: date_fields_def)
  have z: "(0::int) \<le> 1710072000000" by simp
  show ?thesis
    using period_two_branch_algorithm [of 1710072000000 15]
      period_two_branch_algorithm [of 1710970245500 15] a b z
    by blast
qed

text \<open>
  C3. For a tracking start day from 1 to 28 and a clock reading \<open>now\<close> at or after the
  epoch, the period brackets \<open>now\<close>, starts at 00:00:00.000 of a day numbered with the
  start day, and ends one millisecond before 00:00:00.000 of the day with that number in
  the following month: one calendar month less a day. For start day 1 the end is built
  as day 0 of a month, the last day of the month before.
\<close>

theorem period_brackets_now:
  assumes now: "0 \<le> now" and lo: "1 \<le> tsd" and hi: "tsd \<le> 28"
  defines "p \<equiv> getCurrentTrackingPeriod now tsd"
  shows "periodStart p \<le> now \<and> now \<le> periodEnd p
    \<and> getDate (periodStart p) = tsd \<and> TimeWithinDay (periodStart p) = 0
    \<and> getDate (periodEnd p + 1) = tsd \<and> TimeWithinDay (periodEnd p + 1) = 0
    \<and> month_of (periodEnd p + 1) = next_month (month_of (periodStart p))"
proof -
  let ?y = "YearFromTime now" and ?m = "MonthFromTime now" and ?d = "DateFromTime now"
  have y: "\<not> (0 \<le> ?y \<and> ?y \<le> 99)"
    using YearFromTime_epoch [OF now] by linarith
  note m = MonthFromTime_range [of now]
  note d = DateFromTime_range [of now]
  have D: "Day now = MakeDay ?y ?m ?d" by (simp add: MakeDay_fields)
  have z: "(0::int) \<le> 0" "(0::int) < msPerDay" by (simp_all add: msPerDay_def)
  have dim: "tsd \<le> DaysInMonth k (LeapOfYear x)" for k x
    using DaysInMonth_ge_28 [OF LeapOfYear_cases, of k x] hi by linarith
  show ?thesis
  proof (cases "tsd \<le> ?d")
    case True
    have s: "periodStart p = MakeDate (MakeDay ?y ?m tsd) 0"
      and e: "periodEnd p = MakeDate (MakeDay ?y (?m + 1) (tsd - 1)) 86399999"
      using True
      by (simp_all add: p_def getCurrentTrackingPeriod_def Let_def getFullYear_def getMonth_def
          getDate_def newDate_plain [OF y] MakeTime_midnight MakeTime_last)
    have e1: "periodEnd p + 1 = MakeDate (MakeDay ?y (?m + 1) tsd) 0"
      unfolding e by (rule MakeDate_end_succ)
    have a1: "periodStart p \<le> now"
      unfolding s by (rule MakeDate_lower) (simp add: D MakeDay_mono True)
    have "?d \<le> tsd - 1 + DaysInMonth ?m (InLeapYear now)" using d(2) lo by linarith
    then have "MakeDay ?y ?m ?d \<le> MakeDay ?y (?m + 1) (tsd - 1)"
      unfolding MakeDay_next_month using m
      by (simp add: MakeDay_mono InLeapYear_def)
    then have a2: "now \<le> periodEnd p"
      unfolding e by (intro MakeDate_upper) (simp add: D)
    have a3: "getDate (periodStart p) = tsd"
      unfolding s getDate_def by (rule fields_MakeDay(3) [OF lo dim z])
    have a4: "TimeWithinDay (periodStart p) = 0"
      unfolding s by (rule Day_MakeDate(2) [OF z])
    have a5: "getDate (periodEnd p + 1) = tsd"
      unfolding e1 getDate_def by (rule fields_MakeDay(3) [OF lo dim z])
    have a6: "TimeWithinDay (periodEnd p + 1) = 0"
      unfolding e1 by (rule Day_MakeDate(2) [OF z])
    have a7: "month_of (periodEnd p + 1) = next_month (month_of (periodStart p))"
      unfolding e1 s month_of_def getFullYear_def getMonth_def
      by (simp only: fields_MakeDay(1,2) [OF lo dim z] next_month_norm [OF m]
          same_month_norm [OF m])

    show ?thesis using a1 a2 a3 a4 a5 a6 a7 by blast
  next
    case False
    then have lt: "?d \<le> tsd - 1" by linarith
    have s: "periodStart p = MakeDate (MakeDay ?y (?m - 1) tsd) 0"
      and e: "periodEnd p = MakeDate (MakeDay ?y ?m (tsd - 1)) 86399999"
      using False
      by (simp_all add: p_def getCurrentTrackingPeriod_def Let_def getFullYear_def getMonth_def
          getDate_def newDate_plain [OF y] MakeTime_midnight MakeTime_last)
    have e1: "periodEnd p + 1 = MakeDate (MakeDay ?y ?m tsd) 0"
      unfolding e by (rule MakeDate_end_succ)
    have "tsd - DaysInMonth k (LeapOfYear x) \<le> ?d" for k x
      using dim [of k x] d(1) by linarith
    then have "MakeDay ?y (?m - 1) tsd \<le> MakeDay ?y ?m ?d"
      unfolding MakeDay_prev_month by (rule MakeDay_mono)
    then have a1: "periodStart p \<le> now"
      unfolding s by (intro MakeDate_lower) (simp add: D)
    have a2: "now \<le> periodEnd p"
      unfolding e by (rule MakeDate_upper) (simp only: D MakeDay_mono [OF lt])
    have a3: "getDate (periodStart p) = tsd"
      unfolding s getDate_def by (rule fields_MakeDay(3) [OF lo dim z])
    have a4: "TimeWithinDay (periodStart p) = 0"
      unfolding s by (rule Day_MakeDate(2) [OF z])
    have a5: "getDate (periodEnd p + 1) = tsd"
      unfolding e1 getDate_def by (rule fields_MakeDay(3) [OF lo dim z])
    have a6: "TimeWithinDay (periodEnd p + 1) = 0"
      unfolding e1 by (rule Day_MakeDate(2) [OF z])
    have pm: "next_month (prev_month (?y, ?m)) = (?y, ?m)"
      using m by auto
    have a7: "month_of (periodEnd p + 1) = next_month (month_of (periodStart p))"
      unfolding e1 s month_of_def getFullYear_def getMonth_def
      by (simp only: fields_MakeDay(1,2) [OF lo dim z] prev_month_norm [OF m]
          same_month_norm [OF m] pm)

    show ?thesis using a1 a2 a3 a4 a5 a6 a7 by blast
  qed
qed

theorem period_brackets_now_witness:
  "periodStart (getCurrentTrackingPeriod 1710072000000 1) \<le> 1710072000000
   \<and> 1710072000000 \<le> periodEnd (getCurrentTrackingPeriod 1710072000000 1)
   \<and> getDate (periodStart (getCurrentTrackingPeriod 1710072000000 1)) = 1
   \<and> TimeWithinDay (periodStart (getCurrentTrackingPeriod 1710072000000 1)) = 0
   \<and> getDate (periodEnd (getCurrentTrackingPeriod 1710072000000 1) + 1) = 1
   \<and> TimeWithinDay (periodEnd (getCurrentTrackingPeriod 1710072000000 1) + 1) = 0
   \<and> month_of (periodEnd (getCurrentTrackingPeriod 1710072000000 1) + 1)
       = next_month (month_of (periodStart (getCurrentTrackingPeriod 1710072000000 1)))"
  using period_brackets_now [of 1710072000000 1] by simp

section \<open>Properties of the aggregator\<close>

lemma foldl_sum_shift:
  "foldl (\<lambda>sum purchase. sum + amount purchase) a ps
     = a + foldl (\<lambda>sum purchase. sum + amount purchase) 0 ps"
proof (induction ps arbitrary: a)
  case Nil
  show ?case by simp
next
  case (Cons p ps)
  show ?case
    using Cons.IH [of "a + amount p"] Cons.IH [of "amount p"] by simp
qed

lemma add_to_totals_sum:
  "bank (add_to_totals t p) + credit (add_to_totals t p) + cash (add_to_totals t p)
     = bank t + credit t + cash t + amount p"
  by (cases "payment_method p") (simp_all add: add_to_totals_def)

lemma foldl_totals_sum:
  "bank (foldl add_to_totals t ps) + credit (foldl add_to_totals t ps)
     + cash (foldl add_to_totals t ps)
   = bank t + credit t + cash t + totalSpent ps"
proof (induction ps arbitrary: t)
  case Nil
  show ?case by (simp add: totalSpent_def)
next
  case (Cons p ps)
  have "totalSpent (p # ps) = amount p + totalSpent ps"
    using foldl_sum_shift [of "amount p" ps] by (simp add: totalSpent_def)
  then show ?case
    using Cons.IH [of "add_to_totals t p"] add_to_totals_sum [of t p] by simp
qed

lemma scenario_totals:
  "calculateTotalsByPaymentMethod scenario_purchases = \<lparr>bank = 120, credit = 50, cash = 310\<rparr>"
  "totalSpent scenario_purchases = 480"
  by (simp_all add: calculateTotalsByPaymentMethod_def totalSpent_def scenario_purchases_def
      add_to_totals_def)

text \<open>
  C4. The empty purchase list gives zero for each payment method and zero spent in total,
  and for every purchase list the three totals by payment method add up to the total
  spent.
\<close>

theorem method_totals_sum_to_total:
  "calculateTotalsByPaymentMethod [] = \<lparr>bank = 0, credit = 0, cash = 0\<rparr>
   \<and> totalSpent [] = 0
   \<and> bank (calculateTotalsByPaymentMethod purchases)
       + credit (calculateTotalsByPaymentMethod purchases)
       + cash (calculateTotalsByPaymentMethod purchases)
     = totalSpent purchases"
  using foldl_totals_sum [of "\<lparr>bank = 0, credit = 0, cash = 0\<rparr>" purchases]
  by (simp add: calculateTotalsByPaymentMethod_def totalSpent_def)

theorem method_totals_sum_to_total_witness:
  "bank (calculateTotalsByPaymentMethod scenario_purchases)
     + credit (calculateTotalsByPaymentMethod scenario_purchases)
     + cash (calculateTotalsByPaymentMethod scenario_purchases) = 480"
  using method_totals_sum_to_total [of scenario_purchases] scenario_totals(2) by simp

section \<open>Properties of the purchase filter\<close>

lemma window_stage:
  "(if dateFilter \<noteq> ''all'' then
      (if dateFilter = ''today'' then
         (let filterDate = newDate (getFullYear now) (getMonth now) (getDate now) 0 0 0 0
          in filter (\<lambda>purchase. purchase_date purchase \<ge> filterDate) ys)
       else if dateFilter = ''week'' then
         (let filterDate = now - 7 * 24 * 60 * 60 * 1000
          in filter (\<lambda>purchase. purchase_date purchase \<ge> filterDate) ys)
       else if dateFilter = ''month'' then
         (let filterDate = now - 30 * 24 * 60 * 60 * 1000
          in filter (\<lambda>purchase. purchase_date purchase \<ge> filterDate) ys)
       else ys)
    else ys)
   = filter (\<lambda>p. case window_threshold now dateFilter of
                    None \<Rightarrow> True
                  | Some threshold \<Rightarrow> threshold \<le> purchase_date p) ys"
proof -
  consider (today) "dateFilter = ''today''" | (week) "dateFilter = ''week''"
    | (month) "dateFilter = ''month''"
    | (other) "dateFilter \<noteq> ''today''" "dateFilter \<noteq> ''week''" "dateFilter \<noteq> ''month''"
    by blast
  then show ?thesis
  proof cases
    case today
    then show ?thesis by (simp add: window_threshold_def)
  next
    case week
    then show ?thesis by (simp add: window_threshold_def msPerDay_def)
  next
    case month
    then show ?thesis by (simp add: window_threshold_def msPerDay_def)
  next
    case other
    then show ?thesis by (simp add: window_threshold_def)
  qed
qed

lemma filterPurchases_filter:
  "filterPurchases now purchases searchTerm paymentMethodFilter dateFilter
     = filter (matches_criteria now searchTerm paymentMethodFilter dateFilter) purchases"
proof -
  let ?P1 = "\<lambda>p. searchTerm = []
      \<or> sublist (toLowerCase searchTerm) (toLowerCase (description p))"
  let ?P2 = "\<lambda>p. paymentMethodFilter = ''all''
      \<or> payment_method_str (payment_method p) = paymentMethodFilter"
  let ?P3 = "\<lambda>p. case window_threshold now dateFilter of
                    None \<Rightarrow> True
                  | Some threshold \<Rightarrow> threshold \<le> purchase_date p"
  have s1: "(if searchTerm \<noteq> [] then
               filter (\<lambda>purchase.
                  includes_str (toLowerCase (description purchase)) (toLowerCase searchTerm))
                 purchases
             else purchases) = filter ?P1 purchases"
    by (cases "searchTerm = []") (simp_all add: includes_str_def)
  have s2: "(if paymentMethodFilter \<noteq> ''all'' then
               filter (\<lambda>purchase.
                  payment_method_str (payment_method purchase) = paymentMethodFilter) ys
             else ys) = filter ?P2 ys" for ys
    by (cases "paymentMethodFilter = ''all''") simp_all
  have "filterPurchases now purchases searchTerm paymentMethodFilter dateFilter
      = filter ?P3 (filter ?P2 (filter ?P1 purchases))"
    unfolding filterPurchases_def Let_def s1 s2 window_stage [unfolded Let_def] ..
  also have "\<dots> = filter (matches_criteria now searchTerm paymentMethodFilter dateFilter)
      purchases"
    unfolding filter_filter matches_criteria_def by (rule filter_cong) auto
  finally show ?thesis .
qed

lemma filter_example:
  "filterPurchases 1710072000000 scenario_purchases ''BIKE'' ''cash'' ''month''
     = [scenario_purchases ! 2]"
  "filterPurchases 1710072000000 scenario_purchases [] ''all'' ''week''
     = [scenario_purchases ! 0, scenario_purchases ! 1]"
  "filterPurchases 1710072000000 scenario_purchases [] ''all'' ''today''
     = [scenario_purchases ! 0]"
  by (simp_all add: filterPurchases_def scenario_purchases_def includes_str_def
      toLowerCase_def toLowerCase_char_def sublist_code date_defs)

text \<open>
  C5. With an empty search term and both selectors at \<^verbatim>\<open>all\<close> the filter returns the
  purchases unchanged, and filtering a filtered list again with the same criteria and
  clock changes nothing.
\<close>

theorem filter_identity_and_idempotent:
  "filterPurchases now purchases [] ''all'' ''all'' = purchases
   \<and> filterPurchases now (filterPurchases now purchases searchTerm paymentMethodFilter dateFilter)
         searchTerm paymentMethodFilter dateFilter
       = filterPurchases now purchases searchTerm paymentMethodFilter dateFilter"
proof
  show "filterPurchases now purchases [] ''all'' ''all'' = purchases"
    by (simp add: filterPurchases_def)
  show "filterPurchases now
          (filterPurchases now purchases searchTerm paymentMethodFilter dateFilter)
          searchTerm paymentMethodFilter dateFilter
        = filterPurchases now purchases searchTerm paymentMethodFilter dateFilter"
    by (simp add: filterPurchases_filter)
qed

theorem filter_identity_and_idempotent_witness:
  "filterPurchases 1710072000000 scenario_purchases [] ''all'' ''all'' = scenario_purchases
   \<and> filterPurchases 1710072000000
         (filterPurchases 1710072000000 scenario_purchases ''BIKE'' ''cash'' ''month'')
         ''BIKE'' ''cash'' ''month''
       = filterPurchases 1710072000000 scenario_purchases ''BIKE'' ''cash'' ''month''"
  using filter_identity_and_idempotent
    [of 1710072000000 scenario_purchases "''BIKE''" "''cash''" "''month''"]
  by blast

text \<open>
  C7. The filter keeps exactly the purchases that meet every active criterion: the
  description contains the search text when letter case is ignored (when the text is not
  empty), the payment method is the selected one (when the selector is not \<^verbatim>\<open>all\<close>),
  and the purchase date is not before the threshold of the window (start of today, seven
  days ago, thirty days ago). The result keeps the order of the input: it is a
  subsequence of it.
\<close>

theorem filter_conjunctive_and_ordered:
  "filterPurchases now purchases searchText method window
     = filter (matches_criteria now searchText method window) purchases
   \<and> subseq (filterPurchases now purchases searchText method window) purchases
   \<and> (\<forall>p. p \<in> set (filterPurchases now purchases searchText method window) \<longleftrightarrow>
          p \<in> set purchases
          \<and> (searchText \<noteq> [] \<longrightarrow>
                sublist (toLowerCase searchText) (toLowerCase (description p)))
          \<and> (method \<noteq> ''all'' \<longrightarrow> payment_method_str (payment_method p) = method)
          \<and> (window = ''today'' \<longrightarrow>
                newDate (getFullYear now) (getMonth now) (getDate now) 0 0 0 0
                  \<le> purchase_date p)
          \<and> (window = ''week'' \<longrightarrow> now - 7 * msPerDay \<le> purchase_date p)
          \<and> (window = ''month'' \<longrightarrow> now - 30 * msPerDay \<le> purchase_date p))"
proof (intro conjI allI)
  show f: "filterPurchases now purchases searchText method window
      = filter (matches_criteria now searchText method window) purchases"
    by (rule filterPurchases_filter)
  show "subseq (filterPurchases now purchases searchText method window) purchases"
    unfolding f by (rule subseq_filter_left)
  fix p
  show "p \<in> set (filterPurchases now purchases searchText method window) \<longleftrightarrow>
          p \<in> set purchases
          \<and> (searchText \<noteq> [] \<longrightarrow>
                sublist (toLowerCase searchText) (toLowerCase (description p)))
          \<and> (method \<noteq> ''all'' \<longrightarrow> payment_method_str (payment_method p) = method)
          \<and> (window = ''today'' \<longrightarrow>
                newDate (getFullYear now) (getMonth now) (getDate now) 0 0 0 0
                  \<le> purchase_date p)
          \<and> (window = ''week'' \<longrightarrow> now - 7 * msPerDay \<le> purchase_date p)
          \<and> (window = ''month'' \<longrightarrow> now - 30 * msPerDay \<le> purchase_date p)"
    unfolding f by (auto simp: matches_criteria_def window_threshold_def)
qed

theorem filter_conjunctive_and_ordered_witness:
  "scenario_purchases ! 2
     \<in> set (filterPurchases 1710072000000 scenario_purchases ''BIKE'' ''cash'' ''month'')
   \<and> scenario_purchases ! 0
     \<notin> set (filterPurchases 1710072000000 scenario_purchases ''BIKE'' ''cash'' ''month'')
   \<and> subseq (filterPurchases 1710072000000 scenario_purchases ''BIKE'' ''cash'' ''month'')
       scenario_purchases"
proof -
  note t = filter_conjunctive_and_ordered
    [of 1710072000000 scenario_purchases "''BIKE''" "''cash''" "''month''"]
  have in2: "scenario_purchases ! 2 \<in> set scenario_purchases"
    and in0: "scenario_purchases ! 0 \<in> set scenario_purchases"
    by (simp_all add: scenario_purchases_def)
  have text2: "sublist (toLowerCase ''BIKE'') (toLowerCase (description (scenario_purchases ! 2)))"
    by (simp add: scenario_purchases_def toLowerCase_def toLowerCase_char_def sublist_code)
  have method2: "payment_method_str (payment_method (scenario_purchases ! 2)) = ''cash''"
    and method0: "payment_method_str (payment_method (scenario_purchases ! 0)) \<noteq> ''cash''"
    by (simp_all add: scenario_purchases_def)
  have date2: "1710072000000 - 30 * msPerDay \<le> purchase_date (scenario_purchases ! 2)"
    by (simp add: scenario_purchases_def msPerDay_def)
  have w: "''month'' \<noteq> ''today''" "''month'' \<noteq> ''week''" "''cash'' \<noteq> ''all''"
    by simp_all
  show ?thesis
    using t in2 in0 text2 method2 method0 date2 w by blast
qed

section \<open>Properties of validation\<close>

lemma accepted_iff: "accepted r \<longleftrightarrow> (\<exists>row. r = Submitted row)"
  by (cases r) simp_all

lemma trim_Food: "trim ''Food'' = ''Food''"
  by (simp add: trim_def isWhiteSpace_def)

lemma create_fixed:
  assumes "trim name \<noteq> []"
  shows "accepted (handleSubmit pf (Some uid) name Fixed fixedAmount percentageAmount colour)
     \<longleftrightarrow> (\<exists>a. pf fixedAmount = Num a \<and> 0 < a)"
  using assms by (cases "pf fixedAmount") (auto simp: handleSubmit_def Let_def)

lemma create_percentage:
  assumes "trim name \<noteq> []"
  shows "accepted (handleSubmit pf (Some uid) name Percentage fixedAmount percentageAmount colour)
     \<longleftrightarrow> (\<exists>p. pf percentageAmount = Num p \<and> 0 < p \<and> p \<le> 100)"
  using assms by (cases "pf percentageAmount") (auto simp: handleSubmit_def Let_def)

lemma create_hybrid:
  assumes "trim name \<noteq> []"
  shows "accepted (handleSubmit pf (Some uid) name Hybrid fixedAmount percentageAmount colour)
     \<longleftrightarrow> (\<exists>a. pf fixedAmount = Num a \<and> 0 < a)
          \<and> (\<exists>p. pf percentageAmount = Num p \<and> 0 < p \<and> p \<le> 100)"
  using assms
  by (cases "pf fixedAmount"; cases "pf percentageAmount")
     (auto simp: handleSubmit_def Let_def)

lemma edit_accepts:
  assumes "trim editName \<noteq> []"
  shows "accepted (handleEditSubmit pf editName editFixed editPercent editColor)
     \<longleftrightarrow> (editFixed = [] \<or> (\<exists>a. pf editFixed = Num a \<and> 0 \<le> a))
          \<and> (editPercent = [] \<or> (\<exists>p. pf editPercent = Num p \<and> 0 \<le> p \<and> p \<le> 100))"
  using assms
  by (cases "pf editFixed"; cases "pf editPercent")
     (auto simp: handleEditSubmit_def Let_def)

lemma create_stores_checked_amounts:
  assumes "handleSubmit pf user name budgetType fixedAmount percentageAmount colour
             = Submitted row"
  shows "(\<forall>a. ins_fixed_amount row = Some a \<longrightarrow> 0 < a)
       \<and> (\<forall>p. ins_percentage_amount row = Some p \<longrightarrow> 0 < p \<and> p \<le> 100)"
  using assms
  by (cases user; cases budgetType; cases "pf fixedAmount"; cases "pf percentageAmount")
     (auto simp: handleSubmit_def Let_def split: if_splits)

lemma edit_stores_checked_amounts:
  assumes "handleEditSubmit pf editName editFixed editPercent editColor = Submitted row"
  shows "(\<forall>v. upd_fixed_amount row = Some v \<longrightarrow> (\<exists>a. v = Num a \<and> 0 \<le> a))
       \<and> (\<forall>v. upd_percentage_amount row = Some v \<longrightarrow> (\<exists>p. v = Num p \<and> 0 \<le> p \<and> p \<le> 100))"
proof -
  have n: "trim editName \<noteq> []"
    using assms by (auto simp: handleEditSubmit_def split: if_splits)
  have acc: "accepted (handleEditSubmit pf editName editFixed editPercent editColor)"
    using assms by simp
  have row: "upd_fixed_amount row = (if editFixed \<noteq> [] then Some (pf editFixed) else None)"
    "upd_percentage_amount row = (if editPercent \<noteq> [] then Some (pf editPercent) else None)"
    using assms by (auto simp: handleEditSubmit_def Let_def split: if_splits)
  show ?thesis
    using edit_accepts [OF n, of pf editFixed editPercent editColor] acc row
    by (auto split: if_splits)
qed

text \<open>
  C8. With a budget name that is not blank: creating a fixed budget is accepted exactly
  when the fixed amount parses to a number above zero, a percentage budget exactly when
  the percentage parses to a number above zero and at most 100, a hybrid budget exactly
  when both hold; editing is accepted exactly when the fixed amount, if one is typed in,
  parses to a number that is not negative and the percentage, if one is typed in, parses
  to a number from 0 to 100.
\<close>

theorem validation_bounds_create_and_edit:
  "(trim name \<noteq> [] \<longrightarrow>
      (accepted (handleSubmit pf (Some uid) name Fixed fixedAmount percentageAmount colour)
         \<longleftrightarrow> (\<exists>a. pf fixedAmount = Num a \<and> 0 < a))
    \<and> (accepted (handleSubmit pf (Some uid) name Percentage fixedAmount percentageAmount colour)
         \<longleftrightarrow> (\<exists>p. pf percentageAmount = Num p \<and> 0 < p \<and> p \<le> 100))
    \<and> (accepted (handleSubmit pf (Some uid) name Hybrid fixedAmount percentageAmount colour)
         \<longleftrightarrow> (\<exists>a. pf fixedAmount = Num a \<and> 0 < a)
              \<and> (\<exists>p. pf percentageAmount = Num p \<and> 0 < p \<and> p \<le> 100)))
   \<and> (trim editName \<noteq> [] \<longrightarrow>
      (accepted (handleEditSubmit pf editName editFixed editPercent editColor)
         \<longleftrightarrow> (editFixed = [] \<or> (\<exists>a. pf editFixed = Num a \<and> 0 \<le> a))
              \<and> (editPercent = []
                  \<or> (\<exists>p. pf editPercent = Num p \<and> 0 \<le> p \<and> p \<le> 100))))"
proof (intro conjI impI)
  assume n: "trim name \<noteq> []"
  show "accepted (handleSubmit pf (Some uid) name Fixed fixedAmount percentageAmount colour)
         \<longleftrightarrow> (\<exists>a. pf fixedAmount = Num a \<and> 0 < a)"
    by (rule create_fixed [OF n])
  show "accepted (handleSubmit pf (Some uid) name Percentage fixedAmount percentageAmount colour)
         \<longleftrightarrow> (\<exists>p. pf percentageAmount = Num p \<and> 0 < p \<and> p \<le> 100)"
    by (rule create_percentage [OF n])
  show "accepted (handleSubmit pf (Some uid) name Hybrid fixedAmount percentageAmount colour)
         \<longleftrightarrow> (\<exists>a. pf fixedAmount = Num a \<and> 0 < a)
              \<and> (\<exists>p. pf percentageAmount = Num p \<and> 0 < p \<and> p \<le> 100)"
    by (rule create_hybrid [OF n])
next
  assume n: "trim editName \<noteq> []"
  show "accepted (handleEditSubmit pf editName editFixed editPercent editColor)
         \<longleftrightarrow> (editFixed = [] \<or> (\<exists>a. pf editFixed = Num a \<and> 0 \<le> a))
              \<and> (editPercent = []
                  \<or> (\<exists>p. pf editPercent = Num p \<and> 0 \<le> p \<and> p \<le> 100))"
    by (rule edit_accepts [OF n])
qed

theorem validation_bounds_create_and_edit_witness:
  "\<not> accepted (handleSubmit parse_sample (Some ''u1'') ''Food'' Fixed ''0'' [] ''#FF6B35'')
   \<and> accepted (handleSubmit parse_sample (Some ''u1'') ''Food'' Hybrid ''250'' ''100''
        ''#FF6B35'')
   \<and> accepted (handleEditSubmit parse_sample ''Food'' ''0'' ''0'' ''#FF6B35'')
   \<and> \<not> accepted (handleEditSubmit parse_sample ''Food'' ''-5'' [] ''#FF6B35'')"
proof -
  have n: "trim ''Food'' \<noteq> []" by (simp add: trim_Food)
  have p: "parse_sample ''0'' = Num 0" "parse_sample ''250'' = Num 250"
    "parse_sample ''100'' = Num 100" "parse_sample ''-5'' = Num (- 5)"
    by (simp_all add: parse_sample_def)
  show ?thesis
    using validation_bounds_create_and_edit
        [of "''Food''" parse_sample "''u1''" "''0''" "[]" "''#FF6B35''" "''Food''" "''0''" "''0''"
          "''#FF6B35''"]
      validation_bounds_create_and_edit
        [of "''Food''" parse_sample "''u1''" "''250''" "''100''" "''#FF6B35''" "''Food''"
          "''-5''" "[]" "''#FF6B35''"]
      n p
    by simp
qed

text \<open>
  C9. When the amount typed in does not parse to a number above zero, adding a purchase
  never reaches the insert: the table is unchanged whatever the backend would have done,
  and a signed-in user sees the message asking for a valid amount.
\<close>

theorem invalid_amount_never_inserts:
  assumes "pf amountText = NaN \<or> (\<exists>a. pf amountText = Num a \<and> a \<le> 0)"
  shows "handleSubmit_purchase pf toISO ins user budgetId amountText descr paymentMethod
           purchaseDate (st, db)
         = (case user of
              None \<Rightarrow> (st, db)
            | Some uid \<Rightarrow> (st\<lparr>error := ''Please enter a valid amount'', loading := False\<rparr>, db))
       \<and> snd (handleSubmit_purchase pf toISO ins user budgetId amountText descr paymentMethod
           purchaseDate (st, db)) = db"
  using assms by (cases user) (auto simp: handleSubmit_purchase_def Let_def)

theorem invalid_amount_never_inserts_witness:
  "handleSubmit_purchase parse_sample Some insert_sample (Some ''u1'') ''A'' ''-5'' ''Lunch''
     Cash ''2024-03-10'' (\<lparr>error = [], loading = False, closed = False\<rparr>, [])
   = (\<lparr>error = ''Please enter a valid amount'', loading = False, closed = False\<rparr>, [])"
proof -
  have "parse_sample ''-5'' = NaN \<or> (\<exists>a. parse_sample ''-5'' = Num a \<and> a \<le> 0)"
    by (simp add: parse_sample_def)
  then show ?thesis
    using invalid_amount_never_inserts [of parse_sample "''-5''" Some insert_sample
      "Some ''u1''" "''A''" "''Lunch''" Cash "''2024-03-10''"
      "\<lparr>error = [], loading = False, closed = False\<rparr>" "[]"]
    by simp
qed

lemma valid_amount_inserts_example:
  "handleSubmit_purchase parse_sample Some insert_sample (Some ''u1'') ''A'' ''250'' ''Lunch''
     Cash ''2024-03-10'' (\<lparr>error = [], loading = False, closed = False\<rparr>, [])
   = (\<lparr>error = [], loading = False, closed = True\<rparr>,
      [\<lparr>new_user_id = ''u1'', new_budget_id = ''A'', new_amount = 250,
        new_description = ''Lunch'', new_payment_method = Cash,
        new_purchase_date = ''2024-03-10T00:00:00.000Z''\<rparr>])"
  by (simp add: handleSubmit_purchase_def parse_sample_def insert_sample_def)

end
